theory Spec2Isabelle
  imports Main "HOL-Library.Word"
begin

unbundle bit_operations_syntax

section \<open>Data model of package i2c\<close>

text \<open>
  Go's \<open>byte\<close>/\<open>uint8\<close> is an 8-bit word, \<open>uint16\<close> a 16-bit word. An \<open>int16\<close> is
  a 16-bit word as well, read through \<open>sint\<close>; where Go's operator depends on the
  signedness (\<open>>>\<close> on \<open>int16\<close> is the arithmetic shift) the signed operation is
  written. Go's \<open>int\<close> (bus number, byte counts) and \<open>time.Duration\<close> are only stored
  and passed on, never computed with, so they are \<open>int\<close>. A Go \<open>error\<close> is a value of
  an arbitrary type \<open>'e\<close>; \<open>nil\<close> is \<open>None\<close>.
\<close>

type_synonym byte = "8 word"
type_synonym uint16 = "16 word"
type_synonym int16 = "16 word"

text \<open>
  The effects of the package are calls of \<open>Write\<close>, \<open>Read\<close> and \<open>Close\<close> on the
  \<open>os.File\<close> held in \<open>rc\<close>, and \<open>time.Sleep\<close>. Each is recorded, in order, with its
  argument: the buffer written, the length of the buffer to read into, the duration.
  The trace events of the logger are not modelled.
\<close>

datatype call = CallWrite "byte list" | CallRead nat | CallClose | CallSleep int

text \<open>
  \<open>os.File\<close> belongs to Go's library, not to the package, so its behaviour is a
  parameter: three functions on the state \<open>'d\<close> of whatever is behind the file.
  \<open>file_Write buf d\<close> gives the count and the error of \<open>Write(buf)\<close>.
  \<open>file_Read n d\<close> gives the bytes the device delivers for a buffer of length \<open>n\<close>,
  and the error of \<open>Read\<close>; the method \<open>read\<close> below stores them at the front of the
  buffer, as \<open>os.File.Read\<close> does.
\<close>

record ('d, 'e) File =
  file_Write :: "byte list \<Rightarrow> 'd \<Rightarrow> (int \<times> 'e option) \<times> 'd"
  file_Read :: "nat \<Rightarrow> 'd \<Rightarrow> (byte list \<times> 'e option) \<times> 'd"
  file_Close :: "'d \<Rightarrow> 'e option \<times> 'd"

text \<open>The struct \<open>I2C\<close>, with the fields of the source.\<close>

record ('d, 'e) I2C =
  addr :: byte
  bus :: int
  rc :: "('d, 'e) File"

text \<open>
  The methods have a pointer receiver, so the struct is part of the state they may
  change, next to the state behind the file and the calls made so far.
\<close>

record ('d, 'e) world =
  chan :: "('d, 'e) I2C"
  dev :: 'd
  calls :: "call list"

text \<open>
  What \<open>NewI2C\<close> needs of the operating system: \<open>os.OpenFile\<close> on a path (an error, or
  the state behind the opened file), the methods of the opened file, the constant
  \<open>I2C_SLAVE\<close> (declared in a file of the package that is not part of the sources at
  hand) and the \<open>ioctl\<close> system call on the opened file.
\<close>

record ('d, 'e) host =
  os_OpenFile :: "string \<Rightarrow> 'e + 'd"
  os_File :: "('d, 'e) File"
  I2C_SLAVE :: nat
  syscall_ioctl :: "nat \<Rightarrow> nat \<Rightarrow> 'd \<Rightarrow> 'e option \<times> 'd"

text \<open>A call either returns its results or panics.\<close>

datatype 'a outcome = Returns 'a | Panics

section \<open>Construction and accessors\<close>

definition DefaultReadDelay :: int where
  "DefaultReadDelay = 0"

text \<open>\<open>fmt.Sprintf("%d", n)\<close>: the decimal digits, with a minus sign below zero.\<close>

fun decimal :: "nat \<Rightarrow> string" where
  "decimal n =
     (if n < 10 then [''0123456789'' ! n]
      else decimal (n div 10) @ [''0123456789'' ! (n mod 10)])"

declare decimal.simps [simp del]

definition sprintf_d :: "int \<Rightarrow> string" where
  "sprintf_d i = (if i < 0 then CHR ''-'' # decimal (nat (- i)) else decimal (nat i))"

definition ioctl :: "('d, 'e) host \<Rightarrow> nat \<Rightarrow> nat \<Rightarrow> 'd \<Rightarrow> 'e option \<times> 'd" where
  "ioctl h cmd arg d = (case syscall_ioctl h cmd arg d of
     (Some e, d') \<Rightarrow> (Some e, d')
   | (None, d') \<Rightarrow> (None, d'))"

definition NewI2C :: "('d, 'e) host \<Rightarrow> byte \<Rightarrow> int \<Rightarrow> 'e + ('d, 'e) world" where
  "NewI2C h a b =
     (case os_OpenFile h (''/dev/i2c-'' @ sprintf_d b) of
        Inl e \<Rightarrow> Inl e
      | Inr f \<Rightarrow>
          (case ioctl h (I2C_SLAVE h) (unat a) f of
             (Some e, f') \<Rightarrow> Inl e
           | (None, f') \<Rightarrow>
               Inr \<lparr>chan = \<lparr>addr = a, bus = b, rc = os_File h\<rparr>, dev = f', calls = []\<rparr>))"

definition GetBus :: "('d, 'e) world \<Rightarrow> int \<times> ('d, 'e) world" where
  "GetBus w = (bus (chan w), w)"

definition GetAddr :: "('d, 'e) world \<Rightarrow> byte \<times> ('d, 'e) world" where
  "GetAddr w = (addr (chan w), w)"

section \<open>Raw transfers\<close>

text \<open>The private method \<open>write\<close>; its name is a keyword of Isabelle, hence the suffix.\<close>

definition write_rc :: "byte list \<Rightarrow> ('d, 'e) world \<Rightarrow> (int \<times> 'e option) \<times> ('d, 'e) world" where
  "write_rc buf w =
     (case file_Write (rc (chan w)) buf (dev w) of
        (r, d) \<Rightarrow> (r, w\<lparr>dev := d, calls := calls w @ [CallWrite buf]\<rparr>))"

definition WriteBytes :: "byte list \<Rightarrow> ('d, 'e) world \<Rightarrow> (int \<times> 'e option) \<times> ('d, 'e) world" where
  "WriteBytes buf w = write_rc buf w"

text \<open>
  The private method \<open>read\<close>. \<open>Read\<close> fills the slice in place: the model
  returns the buffer after the call, the count and the error. The delivered bytes, cut to the length of the buffer, replace
  its front; the positions behind them keep what they held.
\<close>

definition read ::
  "byte list \<Rightarrow> ('d, 'e) world \<Rightarrow> (byte list \<times> int \<times> 'e option) \<times> ('d, 'e) world" where
  "read buf w =
     (case file_Read (rc (chan w)) (length buf) (dev w) of
        ((data, err), d) \<Rightarrow>
          (let n = min (length data) (length buf)
           in ((take n data @ drop n buf, int n, err),
               w\<lparr>dev := d, calls := calls w @ [CallRead (length buf)]\<rparr>)))"

definition ReadBytes ::
  "byte list \<Rightarrow> ('d, 'e) world \<Rightarrow> (byte list \<times> int \<times> 'e option) \<times> ('d, 'e) world" where
  "ReadBytes buf w =
     (case read buf w of
        ((buf', n, Some e), w') \<Rightarrow> ((buf', n, Some e), w')
      | ((buf', n, None), w') \<Rightarrow> ((buf', n, None), w'))"

definition Close :: "('d, 'e) world \<Rightarrow> 'e option \<times> ('d, 'e) world" where
  "Close w =
     (case file_Close (rc (chan w)) (dev w) of
        (err, d) \<Rightarrow> (err, w\<lparr>dev := d, calls := calls w @ [CallClose]\<rparr>))"

definition Sleep :: "int \<Rightarrow> ('d, 'e) world \<Rightarrow> ('d, 'e) world" where
  "Sleep d w = w\<lparr>calls := calls w @ [CallSleep d]\<rparr>"

section \<open>Register reads and writes\<close>

text \<open>\<open>make([]byte, n)\<close> panics for a negative \<open>n\<close>; the limit of the allocator is not modelled.\<close>

definition ReadRegBytesWithDelay ::
  "byte \<Rightarrow> int \<Rightarrow> int \<Rightarrow> ('d, 'e) world
    \<Rightarrow> (byte list option \<times> int \<times> 'e option) outcome \<times> ('d, 'e) world" where
  "ReadRegBytesWithDelay reg n delay w =
     (case WriteBytes [reg] w of
        ((_, Some e), w1) \<Rightarrow> (Returns (None, 0, Some e), w1)
      | ((_, None), w1) \<Rightarrow>
          (if n < 0 then (Panics, w1)
           else
             (let buf = replicate (nat n) 0;
                  w2 = Sleep delay w1
              in case ReadBytes buf w2 of
                   ((_, _, Some e), w3) \<Rightarrow> (Returns (None, 0, Some e), w3)
                 | ((buf', c, None), w3) \<Rightarrow> (Returns (Some buf', c, None), w3))))"

definition ReadRegBytes ::
  "byte \<Rightarrow> int \<Rightarrow> ('d, 'e) world
    \<Rightarrow> (byte list option \<times> int \<times> 'e option) outcome \<times> ('d, 'e) world" where
  "ReadRegBytes reg n w = ReadRegBytesWithDelay reg n DefaultReadDelay w"

definition ReadRegU8WithDelay ::
  "byte \<Rightarrow> int \<Rightarrow> ('d, 'e) world \<Rightarrow> (byte \<times> 'e option) \<times> ('d, 'e) world" where
  "ReadRegU8WithDelay reg delay w =
     (case WriteBytes [reg] w of
        ((_, Some e), w1) \<Rightarrow> ((0, Some e), w1)
      | ((_, None), w1) \<Rightarrow>
          (let buf = replicate 1 0;
               w2 = Sleep delay w1
           in case ReadBytes buf w2 of
                ((_, _, Some e), w3) \<Rightarrow> ((0, Some e), w3)
              | ((buf', _, None), w3) \<Rightarrow> ((buf' ! 0, None), w3)))"

definition ReadRegU8 :: "byte \<Rightarrow> ('d, 'e) world \<Rightarrow> (byte \<times> 'e option) \<times> ('d, 'e) world" where
  "ReadRegU8 reg w = ReadRegU8WithDelay reg DefaultReadDelay w"

definition WriteRegU8 :: "byte \<Rightarrow> byte \<Rightarrow> ('d, 'e) world \<Rightarrow> 'e option \<times> ('d, 'e) world" where
  "WriteRegU8 reg val w =
     (let buf = [reg, val]
      in case WriteBytes buf w of
           ((_, Some e), w1) \<Rightarrow> (Some e, w1)
         | ((_, None), w1) \<Rightarrow> (None, w1))"

definition ReadRegU16BEWithDelay ::
  "byte \<Rightarrow> int \<Rightarrow> ('d, 'e) world \<Rightarrow> (uint16 \<times> 'e option) \<times> ('d, 'e) world" where
  "ReadRegU16BEWithDelay reg delay w =
     (case WriteBytes [reg] w of
        ((_, Some e), w1) \<Rightarrow> ((0, Some e), w1)
      | ((_, None), w1) \<Rightarrow>
          (let buf = replicate 2 0;
               w2 = Sleep delay w1
           in case ReadBytes buf w2 of
                ((_, _, Some e), w3) \<Rightarrow> ((0, Some e), w3)
              | ((buf', _, None), w3) \<Rightarrow>
                  ((push_bit 8 (ucast (buf' ! 0)) + ucast (buf' ! 1), None), w3)))"

definition ReadRegU16BE :: "byte \<Rightarrow> ('d, 'e) world \<Rightarrow> (uint16 \<times> 'e option) \<times> ('d, 'e) world" where
  "ReadRegU16BE reg w = ReadRegU16BEWithDelay reg DefaultReadDelay w"

definition ReadRegU16LEWithDelay ::
  "byte \<Rightarrow> int \<Rightarrow> ('d, 'e) world \<Rightarrow> (uint16 \<times> 'e option) \<times> ('d, 'e) world" where
  "ReadRegU16LEWithDelay reg delay w =
     (case ReadRegU16BEWithDelay reg delay w of
        ((_, Some e), w1) \<Rightarrow> ((0, Some e), w1)
      | ((x, None), w1) \<Rightarrow> ((push_bit 8 (x AND 0xFF) + drop_bit 8 x, None), w1))"

definition ReadRegU16LE :: "byte \<Rightarrow> ('d, 'e) world \<Rightarrow> (uint16 \<times> 'e option) \<times> ('d, 'e) world" where
  "ReadRegU16LE reg w = ReadRegU16LEWithDelay reg DefaultReadDelay w"

text \<open>\<open>int16(buf[0])\<close> of a byte extends with zeros; \<open><<\<close> and \<open>+\<close> wrap at 16 bits.\<close>

definition ReadRegS16BEWithDelay ::
  "byte \<Rightarrow> int \<Rightarrow> ('d, 'e) world \<Rightarrow> (int16 \<times> 'e option) \<times> ('d, 'e) world" where
  "ReadRegS16BEWithDelay reg delay w =
     (case WriteBytes [reg] w of
        ((_, Some e), w1) \<Rightarrow> ((0, Some e), w1)
      | ((_, None), w1) \<Rightarrow>
          (let buf = replicate 2 0;
               w2 = Sleep delay w1
           in case ReadBytes buf w2 of
                ((_, _, Some e), w3) \<Rightarrow> ((0, Some e), w3)
              | ((buf', _, None), w3) \<Rightarrow>
                  ((push_bit 8 (ucast (buf' ! 0)) + ucast (buf' ! 1), None), w3)))"

definition ReadRegS16BE :: "byte \<Rightarrow> ('d, 'e) world \<Rightarrow> (int16 \<times> 'e option) \<times> ('d, 'e) world" where
  "ReadRegS16BE reg w = ReadRegS16BEWithDelay reg DefaultReadDelay w"

text \<open>Here \<open>w>>8\<close> is on an \<open>int16\<close>: the arithmetic shift, which copies the sign bit.\<close>

definition ReadRegS16LEWithDelay ::
  "byte \<Rightarrow> int \<Rightarrow> ('d, 'e) world \<Rightarrow> (int16 \<times> 'e option) \<times> ('d, 'e) world" where
  "ReadRegS16LEWithDelay reg delay w =
     (case ReadRegS16BEWithDelay reg delay w of
        ((_, Some e), w1) \<Rightarrow> ((0, Some e), w1)
      | ((x, None), w1) \<Rightarrow> ((push_bit 8 (x AND 0xFF) + signed_drop_bit 8 x, None), w1))"

definition ReadRegS16LE :: "byte \<Rightarrow> ('d, 'e) world \<Rightarrow> (int16 \<times> 'e option) \<times> ('d, 'e) world" where
  "ReadRegS16LE reg w = ReadRegS16LEWithDelay reg DefaultReadDelay w"

definition WriteRegU16BE :: "byte \<Rightarrow> uint16 \<Rightarrow> ('d, 'e) world \<Rightarrow> 'e option \<times> ('d, 'e) world" where
  "WriteRegU16BE reg val w =
     (let buf = [reg, ucast (drop_bit 8 (val AND 0xFF00)), ucast (val AND 0xFF)]
      in case WriteBytes buf w of
           ((_, Some e), w1) \<Rightarrow> (Some e, w1)
         | ((_, None), w1) \<Rightarrow> (None, w1))"

text \<open>The source multiplies: \<open>(value*0xFF00)>>8 + value<<8\<close>, all at 16 bits.\<close>

definition WriteRegU16LE :: "byte \<Rightarrow> uint16 \<Rightarrow> ('d, 'e) world \<Rightarrow> 'e option \<times> ('d, 'e) world" where
  "WriteRegU16LE reg val w =
     (let x = drop_bit 8 (val * 0xFF00) + push_bit 8 val
      in WriteRegU16BE reg x w)"

text \<open>
  \<open>(uint16(value) & 0xFF00) >> 8\<close> is a logical shift of the unsigned conversion;
  \<open>byte(value & 0xFF)\<close> keeps the low eight bits.
\<close>

definition WriteRegS16BE :: "byte \<Rightarrow> int16 \<Rightarrow> ('d, 'e) world \<Rightarrow> 'e option \<times> ('d, 'e) world" where
  "WriteRegS16BE reg val w =
     (let buf = [reg, ucast (drop_bit 8 (val AND 0xFF00)), ucast (val AND 0xFF)]
      in case WriteBytes buf w of
           ((_, Some e), w1) \<Rightarrow> (Some e, w1)
         | ((_, None), w1) \<Rightarrow> (None, w1))"

definition WriteRegS16LE :: "byte \<Rightarrow> int16 \<Rightarrow> ('d, 'e) world \<Rightarrow> 'e option \<times> ('d, 'e) world" where
  "WriteRegS16LE reg val w =
     (let x = drop_bit 8 (val * 0xFF00) + push_bit 8 val
      in WriteRegS16BE reg x w)"

section \<open>Callers\<close>

text \<open>
  What a caller can do with a channel: call one exported method after another. The
  results are dropped here, and the channel is followed through the calls; a caller
  that recovers from the panic of \<open>ReadRegBytes\<close> goes on with the channel as
  the panic left it.
\<close>

datatype operation =
    DoGetBus
  | DoGetAddr
  | DoWriteBytes "byte list"
  | DoReadBytes "byte list"
  | DoClose
  | DoReadRegBytes byte int
  | DoReadRegBytesWithDelay byte int int
  | DoReadRegU8 byte
  | DoReadRegU8WithDelay byte int
  | DoWriteRegU8 byte byte
  | DoReadRegU16BE byte
  | DoReadRegU16BEWithDelay byte int
  | DoReadRegU16LE byte
  | DoReadRegU16LEWithDelay byte int
  | DoReadRegS16BE byte
  | DoReadRegS16BEWithDelay byte int
  | DoReadRegS16LE byte
  | DoReadRegS16LEWithDelay byte int
  | DoWriteRegU16BE byte uint16
  | DoWriteRegU16LE byte uint16
  | DoWriteRegS16BE byte int16
  | DoWriteRegS16LE byte int16

fun perform :: "operation \<Rightarrow> ('d, 'e) world \<Rightarrow> ('d, 'e) world" where
  "perform DoGetBus w = snd (GetBus w)"
| "perform DoGetAddr w = snd (GetAddr w)"
| "perform (DoWriteBytes buf) w = snd (WriteBytes buf w)"
| "perform (DoReadBytes buf) w = snd (ReadBytes buf w)"
| "perform DoClose w = snd (Close w)"
| "perform (DoReadRegBytes reg n) w = snd (ReadRegBytes reg n w)"
| "perform (DoReadRegBytesWithDelay reg n delay) w = snd (ReadRegBytesWithDelay reg n delay w)"
| "perform (DoReadRegU8 reg) w = snd (ReadRegU8 reg w)"
| "perform (DoReadRegU8WithDelay reg delay) w = snd (ReadRegU8WithDelay reg delay w)"
| "perform (DoWriteRegU8 reg val) w = snd (WriteRegU8 reg val w)"
| "perform (DoReadRegU16BE reg) w = snd (ReadRegU16BE reg w)"
| "perform (DoReadRegU16BEWithDelay reg delay) w = snd (ReadRegU16BEWithDelay reg delay w)"
| "perform (DoReadRegU16LE reg) w = snd (ReadRegU16LE reg w)"
| "perform (DoReadRegU16LEWithDelay reg delay) w = snd (ReadRegU16LEWithDelay reg delay w)"
| "perform (DoReadRegS16BE reg) w = snd (ReadRegS16BE reg w)"
| "perform (DoReadRegS16BEWithDelay reg delay) w = snd (ReadRegS16BEWithDelay reg delay w)"
| "perform (DoReadRegS16LE reg) w = snd (ReadRegS16LE reg w)"
| "perform (DoReadRegS16LEWithDelay reg delay) w = snd (ReadRegS16LEWithDelay reg delay w)"
| "perform (DoWriteRegU16BE reg val) w = snd (WriteRegU16BE reg val w)"
| "perform (DoWriteRegU16LE reg val) w = snd (WriteRegU16LE reg val w)"
| "perform (DoWriteRegS16BE reg val) w = snd (WriteRegS16BE reg val w)"
| "perform (DoWriteRegS16LE reg val) w = snd (WriteRegS16LE reg val w)"

fun perform_all :: "operation list \<Rightarrow> ('d, 'e) world \<Rightarrow> ('d, 'e) world" where
  "perform_all [] w = w"
| "perform_all (x # xs) w = perform_all xs (perform x w)"

section \<open>A device for the examples\<close>

text \<open>
  A loopback device: it keeps the data bytes of the last register write (the bytes
  of a frame behind the register address) and delivers them to every read; a write of
  the register address alone selects the register and keeps the data. Once closed it
  rejects every call, as a closed \<open>os.File\<close> does. Errors are their messages.
\<close>

record loopback =
  payload :: "byte list"
  closed :: bool

definition loopback_File :: "(loopback, string) File" where
  "loopback_File =
     \<lparr>file_Write = (\<lambda>buf d.
        if closed d then ((0, Some ''file already closed''), d)
        else ((int (length buf), None),
              if 1 < length buf then d\<lparr>payload := tl buf\<rparr> else d)),
      file_Read = (\<lambda>n d.
        if closed d then (([], Some ''file already closed''), d)
        else ((take n (payload d), None), d)),
      file_Close = (\<lambda>d.
        if closed d then (Some ''file already closed'', d)
        else (None, d\<lparr>closed := True\<rparr>))\<rparr>"

definition loopback_host :: "(loopback, string) host" where
  "loopback_host =
     \<lparr>os_OpenFile = (\<lambda>path.
        if path = ''/dev/i2c-1'' then Inr \<lparr>payload = [], closed = False\<rparr>
        else Inl ''no such file or directory''),
      os_File = loopback_File,
      I2C_SLAVE = 0x0703,
      syscall_ioctl = (\<lambda>cmd arg d. (None, d))\<rparr>"

text \<open>An open channel on the loopback device, which holds the given data bytes.\<close>

definition holding :: "byte list \<Rightarrow> (loopback, string) world" where
  "holding bs =
     \<lparr>chan = \<lparr>addr = 0x40, bus = 1, rc = loopback_File\<rparr>,
      dev = \<lparr>payload = bs, closed = False\<rparr>,
      calls = []\<rparr>"

section \<open>Bytes and 16-bit words\<close>

lemma byte_bound: "unat (b::byte) < 256"
  using unsigned_less [of b, where ?'a = nat] by simp

lemma word16_bound: "unat (x::16 word) < 65536"
  using unsigned_less [of x, where ?'a = nat] by simp

lemma unat_ucast_byte: "unat (ucast (b::byte) :: 16 word) = unat b"
  using byte_bound [of b] by (simp add: unsigned_ucast_eq take_bit_eq_mod)

lemma unat_shl8: "unat (push_bit 8 (x :: 16 word)) = (256 * unat x) mod 65536"
  by (simp add: push_bit_eq_mult unat_word_ariths mult.commute)

lemma unat_and_ff: "unat ((x :: 16 word) AND 0xFF) = unat x mod 256"
proof -
  have "(x AND 0xFF) = take_bit 8 x"
    by (simp add: take_bit_eq_mask mask_numeral)
  then show ?thesis by (simp add: take_bit_eq_mod unat_mod_distrib)
qed

lemma unat_shr8: "unat (drop_bit 8 (x :: 16 word)) = unat x div 256"
  by (simp add: drop_bit_eq_div unat_div_distrib)

text \<open>The word assembled from two bytes, most significant first.\<close>

lemma unat_assemble:
  "unat (push_bit 8 (ucast (b0::byte)) + ucast (b1::byte) :: 16 word) = 256 * unat b0 + unat b1"
  using byte_bound [of b0] byte_bound [of b1]
  by (simp only: unat_word_ariths unat_shl8 unat_ucast_byte) simp

text \<open>The exchange of the two bytes of an unsigned word.\<close>

lemma unat_exchange:
  "unat (push_bit 8 ((x::16 word) AND 0xFF) + drop_bit 8 x) = 256 * (unat x mod 256) + unat x div 256"
  using word16_bound [of x]
  by (simp only: unat_word_ariths unat_shl8 unat_and_ff unat_shr8) simp

text \<open>Two's complement at 16 bits.\<close>

lemma sint_16:
  "sint (x :: 16 word) = (if uint x < 32768 then uint x else uint x - 65536)"
proof -
  have s: "sint x = (uint x + 32768) mod 65536 - 32768"
    by (simp add: sint_uint signed_take_bit_eq_take_bit_shift take_bit_eq_mod)
  have b: "0 \<le> uint x" "uint x < 65536"
    using uint_bounded [of x] by simp_all
  show ?thesis
  proof (cases "uint x < 32768")
    case True
    with b have "(uint x + 32768) mod 65536 = uint x + 32768"
      by (simp add: mod_pos_pos_trivial)
    with True show ?thesis by (simp add: s)
  next
    case False
    have e: "uint x + 32768 = uint x - 32768 + 65536"
      by simp
    have "(uint x + 32768) mod 65536 = (uint x - 32768) mod 65536"
      by (simp only: e mod_add_self2)
    also from False b have "\<dots> = uint x - 32768"
      by (simp add: mod_pos_pos_trivial)
    finally show ?thesis using False by (simp add: s)
  qed
qed

text \<open>The two data bytes of a big-endian word write.\<close>

lemma unat_high_byte:
  "unat (ucast (drop_bit 8 ((v::16 word) AND 0xFF00)) :: byte) = unat v div 256"
proof -
  have "drop_bit 8 (v AND 0xFF00) = drop_bit 8 v AND 0xFF"
    by simp
  then have "unat (drop_bit 8 (v AND 0xFF00)) = unat v div 256 mod 256"
    by (simp only: unat_and_ff unat_shr8)
  then show ?thesis
    using word16_bound [of v] by (simp only: unsigned_ucast_eq take_bit_eq_mod) simp
qed

lemma unat_low_byte:
  "unat (ucast ((v::16 word) AND 0xFF) :: byte) = unat v mod 256"
  using unat_and_ff [of v] by (simp add: unsigned_ucast_eq take_bit_eq_mod)

section \<open>The steps of a register read\<close>

lemma WriteBytes_eq:
  "file_Write (rc (chan w)) buf (dev w) = ((n, err), d)
   \<Longrightarrow> WriteBytes buf w = ((n, err), w\<lparr>dev := d, calls := calls w @ [CallWrite buf]\<rparr>)"
  by (simp add: WriteBytes_def write_rc_def)

lemma ReadBytes_eq:
  "file_Read (rc (chan w)) (length buf) (dev w) = ((data, err), d)
   \<Longrightarrow> ReadBytes buf w =
     ((take (min (length data) (length buf)) data @ drop (min (length data) (length buf)) buf,
       int (min (length data) (length buf)), err),
      w\<lparr>dev := d, calls := calls w @ [CallRead (length buf)]\<rparr>)"
  by (simp add: ReadBytes_def read_def Let_def split: option.splits)

lemma zero_filled:
  "take (min (length data) k) data @ drop (min (length data) k) (replicate k (0::byte))
   = take k (data @ replicate k 0)"
  by (cases "length data \<le> k") (simp_all add: min_def)

subsection \<open>When the register-select write fails\<close>

lemma ReadRegBytesWithDelay_select_fails:
  assumes "file_Write (rc (chan w)) [reg] (dev w) = ((n, Some e), d1)"
  shows "ReadRegBytesWithDelay reg k delay w =
    (Returns (None, 0, Some e), w\<lparr>dev := d1, calls := calls w @ [CallWrite [reg]]\<rparr>)"
  by (simp add: ReadRegBytesWithDelay_def WriteBytes_eq [OF assms])

lemma ReadRegU8WithDelay_select_fails:
  assumes "file_Write (rc (chan w)) [reg] (dev w) = ((n, Some e), d1)"
  shows "ReadRegU8WithDelay reg delay w =
    ((0, Some e), w\<lparr>dev := d1, calls := calls w @ [CallWrite [reg]]\<rparr>)"
  by (simp add: ReadRegU8WithDelay_def WriteBytes_eq [OF assms])

lemma ReadRegU16BEWithDelay_select_fails:
  assumes "file_Write (rc (chan w)) [reg] (dev w) = ((n, Some e), d1)"
  shows "ReadRegU16BEWithDelay reg delay w =
    ((0, Some e), w\<lparr>dev := d1, calls := calls w @ [CallWrite [reg]]\<rparr>)"
  by (simp add: ReadRegU16BEWithDelay_def WriteBytes_eq [OF assms])

lemma ReadRegU16LEWithDelay_select_fails:
  assumes "file_Write (rc (chan w)) [reg] (dev w) = ((n, Some e), d1)"
  shows "ReadRegU16LEWithDelay reg delay w =
    ((0, Some e), w\<lparr>dev := d1, calls := calls w @ [CallWrite [reg]]\<rparr>)"
  by (simp add: ReadRegU16LEWithDelay_def ReadRegU16BEWithDelay_select_fails [OF assms])

lemma ReadRegS16BEWithDelay_select_fails:
  assumes "file_Write (rc (chan w)) [reg] (dev w) = ((n, Some e), d1)"
  shows "ReadRegS16BEWithDelay reg delay w =
    ((0, Some e), w\<lparr>dev := d1, calls := calls w @ [CallWrite [reg]]\<rparr>)"
  by (simp add: ReadRegS16BEWithDelay_def WriteBytes_eq [OF assms])

lemma ReadRegS16LEWithDelay_select_fails:
  assumes "file_Write (rc (chan w)) [reg] (dev w) = ((n, Some e), d1)"
  shows "ReadRegS16LEWithDelay reg delay w =
    ((0, Some e), w\<lparr>dev := d1, calls := calls w @ [CallWrite [reg]]\<rparr>)"
  by (simp add: ReadRegS16LEWithDelay_def ReadRegS16BEWithDelay_select_fails [OF assms])

lemmas select_fails =
  ReadRegBytesWithDelay_select_fails ReadRegU8WithDelay_select_fails
  ReadRegU16BEWithDelay_select_fails ReadRegU16LEWithDelay_select_fails
  ReadRegS16BEWithDelay_select_fails ReadRegS16LEWithDelay_select_fails

lemmas default_delay =
  ReadRegBytes_def ReadRegU8_def ReadRegU16BE_def ReadRegU16LE_def ReadRegS16BE_def
  ReadRegS16LE_def

subsection \<open>When the write succeeds and the read delivers\<close>

lemma ReadRegU8WithDelay_delivered:
  assumes "file_Write (rc (chan w)) [reg] (dev w) = ((n, None), d1)"
    and "file_Read (rc (chan w)) 1 d1 = ((data, None), d2)"
  shows "ReadRegU8WithDelay reg delay w =
    ((take 1 (data @ [0]) ! 0, None),
     w\<lparr>dev := d2, calls := calls w @ [CallWrite [reg], CallSleep delay, CallRead 1]\<rparr>)"
  using assms(2) zero_filled [of data 1]
  by (simp add: ReadRegU8WithDelay_def WriteBytes_eq [OF assms(1)] ReadBytes_eq Sleep_def Let_def)

lemma ReadRegU16BEWithDelay_delivered:
  assumes "file_Write (rc (chan w)) [reg] (dev w) = ((n, None), d1)"
    and "file_Read (rc (chan w)) 2 d1 = ((data, None), d2)"
  shows "ReadRegU16BEWithDelay reg delay w =
    ((push_bit 8 (ucast (take 2 (data @ [0, 0]) ! 0)) + ucast (take 2 (data @ [0, 0]) ! 1), None),
     w\<lparr>dev := d2, calls := calls w @ [CallWrite [reg], CallSleep delay, CallRead 2]\<rparr>)"
  using assms(2) zero_filled [of data 2]
  by (simp add: ReadRegU16BEWithDelay_def WriteBytes_eq [OF assms(1)] ReadBytes_eq Sleep_def Let_def numeral_2_eq_2)

lemma ReadRegS16BEWithDelay_delivered:
  assumes "file_Write (rc (chan w)) [reg] (dev w) = ((n, None), d1)"
    and "file_Read (rc (chan w)) 2 d1 = ((data, None), d2)"
  shows "ReadRegS16BEWithDelay reg delay w =
    ((push_bit 8 (ucast (take 2 (data @ [0, 0]) ! 0)) + ucast (take 2 (data @ [0, 0]) ! 1), None),
     w\<lparr>dev := d2, calls := calls w @ [CallWrite [reg], CallSleep delay, CallRead 2]\<rparr>)"
  using assms(2) zero_filled [of data 2]
  by (simp add: ReadRegS16BEWithDelay_def WriteBytes_eq [OF assms(1)] ReadBytes_eq Sleep_def Let_def numeral_2_eq_2)

lemma ReadRegU16LEWithDelay_delivered:
  assumes "file_Write (rc (chan w)) [reg] (dev w) = ((n, None), d1)"
    and "file_Read (rc (chan w)) 2 d1 = ((data, None), d2)"
  shows "ReadRegU16LEWithDelay reg delay w =
    ((push_bit 8
        ((push_bit 8 (ucast (take 2 (data @ [0, 0]) ! 0)) + ucast (take 2 (data @ [0, 0]) ! 1))
          AND 0xFF)
      + drop_bit 8
          (push_bit 8 (ucast (take 2 (data @ [0, 0]) ! 0)) + ucast (take 2 (data @ [0, 0]) ! 1)),
      None),
     w\<lparr>dev := d2, calls := calls w @ [CallWrite [reg], CallSleep delay, CallRead 2]\<rparr>)"
  by (simp add: ReadRegU16LEWithDelay_def ReadRegU16BEWithDelay_delivered [OF assms])

lemma ReadRegS16LEWithDelay_delivered:
  assumes "file_Write (rc (chan w)) [reg] (dev w) = ((n, None), d1)"
    and "file_Read (rc (chan w)) 2 d1 = ((data, None), d2)"
  shows "ReadRegS16LEWithDelay reg delay w =
    ((push_bit 8
        ((push_bit 8 (ucast (take 2 (data @ [0, 0]) ! 0)) + ucast (take 2 (data @ [0, 0]) ! 1))
          AND 0xFF)
      + signed_drop_bit 8
          (push_bit 8 (ucast (take 2 (data @ [0, 0]) ! 0)) + ucast (take 2 (data @ [0, 0]) ! 1)),
      None),
     w\<lparr>dev := d2, calls := calls w @ [CallWrite [reg], CallSleep delay, CallRead 2]\<rparr>)"
  by (simp add: ReadRegS16LEWithDelay_def ReadRegS16BEWithDelay_delivered [OF assms])

lemma of_nat_unat_byte: "unat (x::byte) = k \<Longrightarrow> x = word_of_nat k"
  by auto

section \<open>The struct is never assigned to\<close>

lemma chan_write_rc: "chan (snd (write_rc buf w)) = chan w"
  by (simp add: write_rc_def split: prod.splits)

lemma chan_WriteBytes: "chan (snd (WriteBytes buf w)) = chan w"
  by (simp add: WriteBytes_def chan_write_rc)

lemma chan_ReadBytes: "chan (snd (ReadBytes buf w)) = chan w"
  by (simp add: ReadBytes_def read_def Let_def split: prod.splits option.splits)

lemma chan_Close: "chan (snd (Close w)) = chan w"
  by (simp add: Close_def split: prod.splits)

lemma chan_Sleep: "chan (Sleep d w) = chan w"
  by (simp add: Sleep_def)

lemma chan_ReadRegBytesWithDelay: "chan (snd (ReadRegBytesWithDelay reg n delay w)) = chan w"
  using chan_WriteBytes [of "[reg]" w]
    chan_ReadBytes [of "replicate (nat n) 0" "Sleep delay (snd (WriteBytes [reg] w))"]
  by (auto simp: ReadRegBytesWithDelay_def Let_def chan_Sleep split: prod.splits option.splits)

lemma chan_ReadRegU8WithDelay: "chan (snd (ReadRegU8WithDelay reg delay w)) = chan w"
  using chan_WriteBytes [of "[reg]" w]
    chan_ReadBytes [of "replicate 1 0" "Sleep delay (snd (WriteBytes [reg] w))"]
  by (auto simp: ReadRegU8WithDelay_def Let_def chan_Sleep split: prod.splits option.splits)

lemma chan_ReadRegU16BEWithDelay: "chan (snd (ReadRegU16BEWithDelay reg delay w)) = chan w"
  using chan_WriteBytes [of "[reg]" w]
    chan_ReadBytes [of "replicate 2 0" "Sleep delay (snd (WriteBytes [reg] w))"]
  by (auto simp: ReadRegU16BEWithDelay_def Let_def chan_Sleep split: prod.splits option.splits)

lemma chan_ReadRegS16BEWithDelay: "chan (snd (ReadRegS16BEWithDelay reg delay w)) = chan w"
  using chan_WriteBytes [of "[reg]" w]
    chan_ReadBytes [of "replicate 2 0" "Sleep delay (snd (WriteBytes [reg] w))"]
  by (auto simp: ReadRegS16BEWithDelay_def Let_def chan_Sleep split: prod.splits option.splits)

lemma chan_ReadRegU16LEWithDelay: "chan (snd (ReadRegU16LEWithDelay reg delay w)) = chan w"
  using chan_ReadRegU16BEWithDelay [of reg delay w]
  by (auto simp: ReadRegU16LEWithDelay_def split: prod.splits option.splits)

lemma chan_ReadRegS16LEWithDelay: "chan (snd (ReadRegS16LEWithDelay reg delay w)) = chan w"
  using chan_ReadRegS16BEWithDelay [of reg delay w]
  by (auto simp: ReadRegS16LEWithDelay_def split: prod.splits option.splits)

lemma chan_WriteRegU8: "chan (snd (WriteRegU8 reg val w)) = chan w"
  using chan_WriteBytes [of "[reg, val]" w]
  by (auto simp: WriteRegU8_def Let_def split: prod.splits option.splits)

lemma chan_WriteRegU16BE: "chan (snd (WriteRegU16BE reg val w)) = chan w"
  using chan_WriteBytes [of "[reg, ucast (drop_bit 8 (val AND 0xFF00)), ucast (val AND 0xFF)]" w]
  by (auto simp: WriteRegU16BE_def Let_def split: prod.splits option.splits)

lemma chan_WriteRegS16BE: "chan (snd (WriteRegS16BE reg val w)) = chan w"
  using chan_WriteBytes [of "[reg, ucast (drop_bit 8 (val AND 0xFF00)), ucast (val AND 0xFF)]" w]
  by (auto simp: WriteRegS16BE_def Let_def split: prod.splits option.splits)

lemma chan_WriteRegU16LE: "chan (snd (WriteRegU16LE reg val w)) = chan w"
  by (simp only: WriteRegU16LE_def Let_def chan_WriteRegU16BE)

lemma chan_WriteRegS16LE: "chan (snd (WriteRegS16LE reg val w)) = chan w"
  by (simp only: WriteRegS16LE_def Let_def chan_WriteRegS16BE)

lemmas chan_kept =
  chan_WriteBytes chan_ReadBytes chan_Close chan_ReadRegBytesWithDelay chan_ReadRegU8WithDelay
  chan_ReadRegU16BEWithDelay chan_ReadRegU16LEWithDelay chan_ReadRegS16BEWithDelay
  chan_ReadRegS16LEWithDelay chan_WriteRegU8 chan_WriteRegU16BE chan_WriteRegU16LE
  chan_WriteRegS16BE chan_WriteRegS16LE

lemma chan_perform: "chan (perform x w) = chan w"
  by (cases x) (simp_all only: perform.simps default_delay chan_kept GetBus_def GetAddr_def snd_conv)

lemma chan_perform_all: "chan (perform_all xs w) = chan w"
  by (induction xs arbitrary: w) (simp_all add: chan_perform)

section \<open>Each operation in terms of the calls on the file\<close>

lemma WriteBytes_full:
  "WriteBytes buf w =
     (fst (file_Write (rc (chan w)) buf (dev w)),
      w\<lparr>dev := snd (file_Write (rc (chan w)) buf (dev w)), calls := calls w @ [CallWrite buf]\<rparr>)"
  by (simp add: WriteBytes_def write_rc_def split: prod.splits)

lemma register_write_full:
  "(case WriteBytes buf w of
      ((_, Some e), w1) \<Rightarrow> (Some e, w1)
    | ((_, None), w1) \<Rightarrow> (None, w1)) =
     (snd (fst (file_Write (rc (chan w)) buf (dev w))),
      w\<lparr>dev := snd (file_Write (rc (chan w)) buf (dev w)), calls := calls w @ [CallWrite buf]\<rparr>)"
  by (cases "file_Write (rc (chan w)) buf (dev w)")
    (auto simp: WriteBytes_full split: option.splits)

lemma ReadBytes_full:
  "ReadBytes buf w =
     ((take (min (length (fst (fst (file_Read (rc (chan w)) (length buf) (dev w))))) (length buf))
         (fst (fst (file_Read (rc (chan w)) (length buf) (dev w))))
       @ drop (min (length (fst (fst (file_Read (rc (chan w)) (length buf) (dev w))))) (length buf))
         buf,
       int (min (length (fst (fst (file_Read (rc (chan w)) (length buf) (dev w))))) (length buf)),
       snd (fst (file_Read (rc (chan w)) (length buf) (dev w)))),
      w\<lparr>dev := snd (file_Read (rc (chan w)) (length buf) (dev w)),
        calls := calls w @ [CallRead (length buf)]\<rparr>)"
  by (cases "file_Read (rc (chan w)) (length buf) (dev w)")
    (auto simp: ReadBytes_def read_def Let_def split: option.splits)

lemma Close_full:
  "Close w =
     (fst (file_Close (rc (chan w)) (dev w)),
      w\<lparr>dev := snd (file_Close (rc (chan w)) (dev w)), calls := calls w @ [CallClose]\<rparr>)"
  by (simp add: Close_def split: prod.splits)

subsection \<open>Every register read begins with the write of the register address\<close>

lemma ReadRegBytesWithDelay_first_call:
  "\<exists>rest. calls (snd (ReadRegBytesWithDelay reg k delay w)) = calls w @ CallWrite [reg] # rest"
  by (cases "file_Write (rc (chan w)) [reg] (dev w)")
    (auto simp: ReadRegBytesWithDelay_def WriteBytes_full ReadBytes_full Sleep_def Let_def
      split: option.splits)

lemma ReadRegU8WithDelay_first_call:
  "\<exists>rest. calls (snd (ReadRegU8WithDelay reg delay w)) = calls w @ CallWrite [reg] # rest"
  by (cases "file_Write (rc (chan w)) [reg] (dev w)")
    (auto simp: ReadRegU8WithDelay_def WriteBytes_full ReadBytes_full Sleep_def Let_def
      split: option.splits)

lemma ReadRegU16BEWithDelay_first_call:
  "\<exists>rest. calls (snd (ReadRegU16BEWithDelay reg delay w)) = calls w @ CallWrite [reg] # rest"
  by (cases "file_Write (rc (chan w)) [reg] (dev w)")
    (auto simp: ReadRegU16BEWithDelay_def WriteBytes_full ReadBytes_full Sleep_def Let_def
      split: option.splits)

lemma ReadRegS16BEWithDelay_first_call:
  "\<exists>rest. calls (snd (ReadRegS16BEWithDelay reg delay w)) = calls w @ CallWrite [reg] # rest"
  by (cases "file_Write (rc (chan w)) [reg] (dev w)")
    (auto simp: ReadRegS16BEWithDelay_def WriteBytes_full ReadBytes_full Sleep_def Let_def
      split: option.splits)

lemma ReadRegU16LEWithDelay_first_call:
  "\<exists>rest. calls (snd (ReadRegU16LEWithDelay reg delay w)) = calls w @ CallWrite [reg] # rest"
  using ReadRegU16BEWithDelay_first_call [of reg delay w]
  by (cases "ReadRegU16BEWithDelay reg delay w")
    (auto simp: ReadRegU16LEWithDelay_def split: option.splits)

lemma ReadRegS16LEWithDelay_first_call:
  "\<exists>rest. calls (snd (ReadRegS16LEWithDelay reg delay w)) = calls w @ CallWrite [reg] # rest"
  using ReadRegS16BEWithDelay_first_call [of reg delay w]
  by (cases "ReadRegS16BEWithDelay reg delay w")
    (auto simp: ReadRegS16LEWithDelay_def split: option.splits)

lemmas first_call =
  ReadRegBytesWithDelay_first_call ReadRegU8WithDelay_first_call
  ReadRegU16BEWithDelay_first_call ReadRegU16LEWithDelay_first_call
  ReadRegS16BEWithDelay_first_call ReadRegS16LEWithDelay_first_call

subsection \<open>Register writes as one write of a frame\<close>

lemma WriteRegU16BE_some_frame:
  "\<exists>frame. WriteRegU16BE reg v w =
     (snd (fst (file_Write (rc (chan w)) frame (dev w))),
      w\<lparr>dev := snd (file_Write (rc (chan w)) frame (dev w)),
        calls := calls w @ [CallWrite frame]\<rparr>)"
  by (simp only: WriteRegU16BE_def Let_def register_write_full) blast

lemma WriteRegS16BE_some_frame:
  "\<exists>frame. WriteRegS16BE reg v w =
     (snd (fst (file_Write (rc (chan w)) frame (dev w))),
      w\<lparr>dev := snd (file_Write (rc (chan w)) frame (dev w)),
        calls := calls w @ [CallWrite frame]\<rparr>)"
  by (simp only: WriteRegS16BE_def Let_def register_write_full) blast

lemma WriteRegU16LE_some_frame:
  "\<exists>frame. WriteRegU16LE reg v w =
     (snd (fst (file_Write (rc (chan w)) frame (dev w))),
      w\<lparr>dev := snd (file_Write (rc (chan w)) frame (dev w)),
        calls := calls w @ [CallWrite frame]\<rparr>)"
  by (simp only: WriteRegU16LE_def Let_def WriteRegU16BE_some_frame)

lemma WriteRegS16LE_some_frame:
  "\<exists>frame. WriteRegS16LE reg v w =
     (snd (fst (file_Write (rc (chan w)) frame (dev w))),
      w\<lparr>dev := snd (file_Write (rc (chan w)) frame (dev w)),
        calls := calls w @ [CallWrite frame]\<rparr>)"
  by (simp only: WriteRegS16LE_def Let_def WriteRegS16BE_some_frame)

lemma WriteRegU8_full:
  "WriteRegU8 reg val w =
     (snd (fst (file_Write (rc (chan w)) [reg, val] (dev w))),
      w\<lparr>dev := snd (file_Write (rc (chan w)) [reg, val] (dev w)),
        calls := calls w @ [CallWrite [reg, val]]\<rparr>)"
  by (simp only: WriteRegU8_def Let_def register_write_full)

section \<open>A file that stays closed\<close>

text \<open>
  A predicate \<open>P\<close> on the states behind the file describes a closed file when, in
  every state with \<open>P\<close>, a write is rejected with \<open>ew\<close>, a read with \<open>er\<close>, and
  every call, \<open>Close\<close> too, leads to a state with \<open>P\<close> again.
\<close>

lemma select_rejected:
  assumes "snd (fst (file_Write f [reg] d)) = Some e"
  shows "\<exists>n. file_Write f [reg] d = ((n, Some e), snd (file_Write f [reg] d))"
  using assms by (cases "file_Write f [reg] d") auto

lemma rejected_reads:
  assumes "snd (fst (file_Write (rc (chan w)) [reg] (dev w))) = Some e"
  shows "ReadRegBytes reg k w =
      (Returns (None, 0, Some e),
       w\<lparr>dev := snd (file_Write (rc (chan w)) [reg] (dev w)), calls := calls w @ [CallWrite [reg]]\<rparr>)"
    and "ReadRegBytesWithDelay reg k delay w =
      (Returns (None, 0, Some e),
       w\<lparr>dev := snd (file_Write (rc (chan w)) [reg] (dev w)), calls := calls w @ [CallWrite [reg]]\<rparr>)"
    and "ReadRegU8 reg w =
      ((0, Some e),
       w\<lparr>dev := snd (file_Write (rc (chan w)) [reg] (dev w)), calls := calls w @ [CallWrite [reg]]\<rparr>)"
    and "ReadRegU8WithDelay reg delay w =
      ((0, Some e),
       w\<lparr>dev := snd (file_Write (rc (chan w)) [reg] (dev w)), calls := calls w @ [CallWrite [reg]]\<rparr>)"
    and "ReadRegU16BE reg w =
      ((0, Some e),
       w\<lparr>dev := snd (file_Write (rc (chan w)) [reg] (dev w)), calls := calls w @ [CallWrite [reg]]\<rparr>)"
    and "ReadRegU16BEWithDelay reg delay w =
      ((0, Some e),
       w\<lparr>dev := snd (file_Write (rc (chan w)) [reg] (dev w)), calls := calls w @ [CallWrite [reg]]\<rparr>)"
    and "ReadRegU16LE reg w =
      ((0, Some e),
       w\<lparr>dev := snd (file_Write (rc (chan w)) [reg] (dev w)), calls := calls w @ [CallWrite [reg]]\<rparr>)"
    and "ReadRegU16LEWithDelay reg delay w =
      ((0, Some e),
       w\<lparr>dev := snd (file_Write (rc (chan w)) [reg] (dev w)), calls := calls w @ [CallWrite [reg]]\<rparr>)"
    and "ReadRegS16BE reg w =
      ((0, Some e),
       w\<lparr>dev := snd (file_Write (rc (chan w)) [reg] (dev w)), calls := calls w @ [CallWrite [reg]]\<rparr>)"
    and "ReadRegS16BEWithDelay reg delay w =
      ((0, Some e),
       w\<lparr>dev := snd (file_Write (rc (chan w)) [reg] (dev w)), calls := calls w @ [CallWrite [reg]]\<rparr>)"
    and "ReadRegS16LE reg w =
      ((0, Some e),
       w\<lparr>dev := snd (file_Write (rc (chan w)) [reg] (dev w)), calls := calls w @ [CallWrite [reg]]\<rparr>)"
    and "ReadRegS16LEWithDelay reg delay w =
      ((0, Some e),
       w\<lparr>dev := snd (file_Write (rc (chan w)) [reg] (dev w)), calls := calls w @ [CallWrite [reg]]\<rparr>)"
proof -
  obtain n where sel: "file_Write (rc (chan w)) [reg] (dev w)
      = ((n, Some e), snd (file_Write (rc (chan w)) [reg] (dev w)))"
    using select_rejected [OF assms] by blast
  show "ReadRegBytes reg k w =
      (Returns (None, 0, Some e),
       w\<lparr>dev := snd (file_Write (rc (chan w)) [reg] (dev w)), calls := calls w @ [CallWrite [reg]]\<rparr>)"
    by (simp only: default_delay select_fails [OF sel])
  show "ReadRegBytesWithDelay reg k delay w =
      (Returns (None, 0, Some e),
       w\<lparr>dev := snd (file_Write (rc (chan w)) [reg] (dev w)), calls := calls w @ [CallWrite [reg]]\<rparr>)"
    by (simp only: default_delay select_fails [OF sel])
  show "ReadRegU8 reg w =
      ((0, Some e),
       w\<lparr>dev := snd (file_Write (rc (chan w)) [reg] (dev w)), calls := calls w @ [CallWrite [reg]]\<rparr>)"
    by (simp only: default_delay select_fails [OF sel])
  show "ReadRegU8WithDelay reg delay w =
      ((0, Some e),
       w\<lparr>dev := snd (file_Write (rc (chan w)) [reg] (dev w)), calls := calls w @ [CallWrite [reg]]\<rparr>)"
    by (simp only: default_delay select_fails [OF sel])
  show "ReadRegU16BE reg w =
      ((0, Some e),
       w\<lparr>dev := snd (file_Write (rc (chan w)) [reg] (dev w)), calls := calls w @ [CallWrite [reg]]\<rparr>)"
    by (simp only: default_delay select_fails [OF sel])
  show "ReadRegU16BEWithDelay reg delay w =
      ((0, Some e),
       w\<lparr>dev := snd (file_Write (rc (chan w)) [reg] (dev w)), calls := calls w @ [CallWrite [reg]]\<rparr>)"
    by (simp only: default_delay select_fails [OF sel])
  show "ReadRegU16LE reg w =
      ((0, Some e),
       w\<lparr>dev := snd (file_Write (rc (chan w)) [reg] (dev w)), calls := calls w @ [CallWrite [reg]]\<rparr>)"
    by (simp only: default_delay select_fails [OF sel])
  show "ReadRegU16LEWithDelay reg delay w =
      ((0, Some e),
       w\<lparr>dev := snd (file_Write (rc (chan w)) [reg] (dev w)), calls := calls w @ [CallWrite [reg]]\<rparr>)"
    by (simp only: default_delay select_fails [OF sel])
  show "ReadRegS16BE reg w =
      ((0, Some e),
       w\<lparr>dev := snd (file_Write (rc (chan w)) [reg] (dev w)), calls := calls w @ [CallWrite [reg]]\<rparr>)"
    by (simp only: default_delay select_fails [OF sel])
  show "ReadRegS16BEWithDelay reg delay w =
      ((0, Some e),
       w\<lparr>dev := snd (file_Write (rc (chan w)) [reg] (dev w)), calls := calls w @ [CallWrite [reg]]\<rparr>)"
    by (simp only: default_delay select_fails [OF sel])
  show "ReadRegS16LE reg w =
      ((0, Some e),
       w\<lparr>dev := snd (file_Write (rc (chan w)) [reg] (dev w)), calls := calls w @ [CallWrite [reg]]\<rparr>)"
    by (simp only: default_delay select_fails [OF sel])
  show "ReadRegS16LEWithDelay reg delay w =
      ((0, Some e),
       w\<lparr>dev := snd (file_Write (rc (chan w)) [reg] (dev w)), calls := calls w @ [CallWrite [reg]]\<rparr>)"
    by (simp only: default_delay select_fails [OF sel])
qed

lemma perform_stays_closed:
  assumes inv: "\<forall>d. P d \<longrightarrow>
        (\<forall>b. snd (fst (file_Write f b d)) = Some ew \<and> P (snd (file_Write f b d)))
      \<and> (\<forall>n. snd (fst (file_Read f n d)) = Some er \<and> P (snd (file_Read f n d)))
      \<and> P (snd (file_Close f d))"
    and f: "rc (chan w) = f"
    and P: "P (dev w)"
  shows "P (dev (perform x w))"
proof -
  have W: "snd (fst (file_Write (rc (chan w)) b (dev w))) = Some ew" for b
    using inv f P by blast
  have PW: "P (snd (file_Write (rc (chan w)) b (dev w)))" for b
    using inv f P by blast
  have PR: "P (snd (file_Read (rc (chan w)) n (dev w)))" for n
    using inv f P by blast
  have PC: "P (snd (file_Close (rc (chan w)) (dev w)))"
    using inv f P by blast
  have frame: "P (dev (snd r))"
    if "\<exists>frame. r = (snd (fst (file_Write (rc (chan w)) frame (dev w))),
      w\<lparr>dev := snd (file_Write (rc (chan w)) frame (dev w)),
        calls := calls w @ [CallWrite frame]\<rparr>)" for r
    using that PW by auto
  show ?thesis
  proof (cases x)
    case DoGetBus
    then show ?thesis using P by (simp add: GetBus_def)
  next
    case DoGetAddr
    then show ?thesis using P by (simp add: GetAddr_def)
  next
    case (DoWriteBytes buf)
    then show ?thesis using PW by (simp add: WriteBytes_full)
  next
    case (DoReadBytes buf)
    then show ?thesis using PR by (simp add: ReadBytes_full)
  next
    case DoClose
    then show ?thesis using PC by (simp add: Close_full)
  next
    case (DoWriteRegU8 reg val)
    then show ?thesis using PW by (simp add: WriteRegU8_full)
  next
    case (DoWriteRegU16BE reg v)
    then show ?thesis using frame [OF WriteRegU16BE_some_frame] by simp
  next
    case (DoWriteRegU16LE reg v)
    then show ?thesis using frame [OF WriteRegU16LE_some_frame] by simp
  next
    case (DoWriteRegS16BE reg v)
    then show ?thesis using frame [OF WriteRegS16BE_some_frame] by simp
  next
    case (DoWriteRegS16LE reg v)
    then show ?thesis using frame [OF WriteRegS16LE_some_frame] by simp
  qed (use PW in \<open>simp_all add: rejected_reads [OF W]\<close>)
qed

lemma perform_all_stays_closed:
  assumes inv: "\<forall>d. P d \<longrightarrow>
        (\<forall>b. snd (fst (file_Write f b d)) = Some ew \<and> P (snd (file_Write f b d)))
      \<and> (\<forall>n. snd (fst (file_Read f n d)) = Some er \<and> P (snd (file_Read f n d)))
      \<and> P (snd (file_Close f d))"
  shows "rc (chan w) = f \<Longrightarrow> P (dev w) \<Longrightarrow> P (dev (perform_all xs w))"
proof (induction xs arbitrary: w)
  case Nil
  then show ?case by simp
next
  case (Cons x xs)
  have "rc (chan (perform x w)) = f"
    using Cons.prems(1) by (simp add: chan_perform)
  moreover have "P (dev (perform x w))"
    using perform_stays_closed [OF inv Cons.prems] .
  ultimately show ?case
    using Cons.IH by simp
qed


section \<open>Little-endian word writes\<close>

text \<open>
  Claim C1. A little-endian word write should hand the value with its two bytes
  exchanged to the big-endian writer, so that the frame carries the low byte of the
  value and then its high byte. For the value \<open>0x1234\<close> at register \<open>0x10\<close> the code
  writes the frame \<open>[0x10, 0x34, 0xCC]\<close>, unsigned and signed alike: the second data
  byte is not the high byte \<open>0x12\<close>.
\<close>

theorem WriteReg16LE_frame_of_0x1234:
  "calls (snd (WriteRegU16LE 0x10 0x1234 w)) = calls w @ [CallWrite [0x10, 0x34, 0xCC]]
   \<and> calls (snd (WriteRegS16LE 0x10 0x1234 w)) = calls w @ [CallWrite [0x10, 0x34, 0xCC]]"
  by (simp add: WriteRegU16LE_def WriteRegU16BE_def WriteRegS16LE_def WriteRegS16BE_def
      WriteBytes_def write_rc_def Let_def split: prod.splits option.splits)

text \<open>
  Claim C2. Writing a word little-endian and reading it back little-endian from a
  device that returns the written data bytes should give the word back. For
  \<open>0x1234\<close> the code reads back \<open>0xCC34\<close>.
\<close>

theorem WriteRegU16LE_ReadRegU16LE_of_0x1234:
  "fst (ReadRegU16LE 0x10 (snd (WriteRegU16LE 0x10 0x1234 (holding [])))) = (0xCC34, None)"
  by (simp add: WriteRegU16LE_def WriteRegU16BE_def WriteBytes_def write_rc_def
      ReadRegU16LE_def ReadRegU16LEWithDelay_def ReadRegU16BEWithDelay_def ReadBytes_def
      read_def Sleep_def DefaultReadDelay_def holding_def loopback_File_def)

section \<open>Signed little-endian read\<close>

text \<open>
  Claim C3. The signed little-endian read should return the signed big-endian
  result with its two bytes exchanged. For the wire bytes \<open>[0xFF, 0xFF]\<close> the
  big-endian read gives \<open>-1\<close>, whose exchange is \<open>-1\<close>; the code returns \<open>-257\<close>
  with a nil error.
\<close>

theorem ReadRegS16LE_of_0xFF_0xFF:
  "sint (fst (fst (ReadRegS16LE 0x10 (holding [0xFF, 0xFF])))) = - 257
   \<and> snd (fst (ReadRegS16LE 0x10 (holding [0xFF, 0xFF]))) = None
   \<and> sint (fst (fst (ReadRegS16BE 0x10 (holding [0xFF, 0xFF])))) = - 1"
  by (simp add: WriteBytes_def write_rc_def ReadRegS16LE_def ReadRegS16LEWithDelay_def
      ReadRegS16BE_def ReadRegS16BEWithDelay_def ReadBytes_def read_def Sleep_def
      DefaultReadDelay_def holding_def loopback_File_def)

section \<open>Unsigned word reads\<close>

text \<open>
  Claim C4. When the register-select write succeeds and the read delivers the two
  wire bytes \<open>b0\<close>, \<open>b1\<close> without error, \<open>ReadRegU16BE\<close> returns the unsigned
  value \<open>(b0<<8)+b1\<close> and \<open>ReadRegU16LE\<close> returns \<open>(b1<<8)+b0\<close>, both with
  a nil error. The wire bytes \<open>[0x01, 0x02]\<close> give \<open>0x0102\<close> and \<open>0x0201\<close>.
\<close>

theorem ReadRegU16_of_wire_bytes:
  assumes "file_Write (rc (chan w)) [reg] (dev w) = ((n, None), d1)"
    and "file_Read (rc (chan w)) 2 d1 = (([b0, b1], None), d2)"
  shows "snd (fst (ReadRegU16BE reg w)) = None
    \<and> unat (fst (fst (ReadRegU16BE reg w))) = 256 * unat b0 + unat b1
    \<and> snd (fst (ReadRegU16LE reg w)) = None
    \<and> unat (fst (fst (ReadRegU16LE reg w))) = 256 * unat b1 + unat b0"
proof -
  have be: "fst (ReadRegU16BE reg w) = (push_bit 8 (ucast b0) + ucast b1, None)"
    by (simp add: ReadRegU16BE_def ReadRegU16BEWithDelay_delivered [OF assms])
  have le: "fst (ReadRegU16LE reg w) =
      (push_bit 8 ((push_bit 8 (ucast b0) + ucast b1) AND 0xFF)
        + drop_bit 8 (push_bit 8 (ucast b0) + ucast b1), None)"
    by (simp add: ReadRegU16LE_def ReadRegU16LEWithDelay_delivered [OF assms])
  have "unat (fst (fst (ReadRegU16LE reg w))) = 256 * unat b1 + unat b0"
    using byte_bound [of b0] byte_bound [of b1]
    by (simp only: le fst_conv unat_exchange unat_assemble) simp
  then show ?thesis
    by (simp only: be le fst_conv snd_conv unat_assemble)
qed

theorem ReadRegU16_of_wire_bytes_witness:
  "file_Write (rc (chan (holding [0x01, 0x02]))) [0x10] (dev (holding [0x01, 0x02]))
      = ((1, None), dev (holding [0x01, 0x02]))
   \<and> file_Read (rc (chan (holding [0x01, 0x02]))) 2 (dev (holding [0x01, 0x02]))
      = (([0x01, 0x02], None), dev (holding [0x01, 0x02]))
   \<and> unat (fst (fst (ReadRegU16BE 0x10 (holding [0x01, 0x02])))) = 0x0102
   \<and> unat (fst (fst (ReadRegU16LE 0x10 (holding [0x01, 0x02])))) = 0x0201"
proof -
  have h1: "file_Write (rc (chan (holding [0x01, 0x02]))) [0x10] (dev (holding [0x01, 0x02]))
      = ((1, None), dev (holding [0x01, 0x02]))"
    by (simp add: holding_def loopback_File_def)
  have h2: "file_Read (rc (chan (holding [0x01, 0x02]))) 2 (dev (holding [0x01, 0x02]))
      = (([0x01, 0x02], None), dev (holding [0x01, 0x02]))"
    by (simp add: holding_def loopback_File_def)
  show ?thesis using h1 h2 ReadRegU16_of_wire_bytes [OF h1 h2] by simp
qed

section \<open>Signed big-endian read\<close>

text \<open>
  Claim C5. When the register-select write succeeds and the read delivers the two
  wire bytes \<open>b0\<close>, \<open>b1\<close> without error, \<open>ReadRegS16BE\<close> returns, with a nil
  error, the two's-complement reading of \<open>(b0<<8)+b1\<close>: the number itself below
  \<open>32768\<close>, and the number minus \<open>65536\<close> from there on. The wire bytes
  \<open>[0xFF, 0xFF]\<close> give \<open>-1\<close>.
\<close>

theorem ReadRegS16BE_twos_complement:
  assumes "file_Write (rc (chan w)) [reg] (dev w) = ((n, None), d1)"
    and "file_Read (rc (chan w)) 2 d1 = (([b0, b1], None), d2)"
  shows "snd (fst (ReadRegS16BE reg w)) = None
    \<and> sint (fst (fst (ReadRegS16BE reg w))) =
        (if 256 * uint b0 + uint b1 < 32768 then 256 * uint b0 + uint b1
         else 256 * uint b0 + uint b1 - 65536)"
proof -
  have be: "fst (ReadRegS16BE reg w) = (push_bit 8 (ucast b0) + ucast b1, None)"
    by (simp add: ReadRegS16BE_def ReadRegS16BEWithDelay_delivered [OF assms])
  have "uint (push_bit 8 (ucast b0) + ucast b1 :: 16 word) = 256 * uint b0 + uint b1"
    by (simp only: uint_nat unat_assemble)
  then show ?thesis
    by (simp only: be fst_conv snd_conv sint_16)
qed


theorem ReadRegS16BE_twos_complement_witness:
  "file_Write (rc (chan (holding [0xFF, 0xFF]))) [0x10] (dev (holding [0xFF, 0xFF]))
      = ((1, None), dev (holding [0xFF, 0xFF]))
   \<and> file_Read (rc (chan (holding [0xFF, 0xFF]))) 2 (dev (holding [0xFF, 0xFF]))
      = (([0xFF, 0xFF], None), dev (holding [0xFF, 0xFF]))
   \<and> snd (fst (ReadRegS16BE 0x10 (holding [0xFF, 0xFF]))) = None
   \<and> sint (fst (fst (ReadRegS16BE 0x10 (holding [0xFF, 0xFF])))) = - 1"
proof -
  have h1: "file_Write (rc (chan (holding [0xFF, 0xFF]))) [0x10] (dev (holding [0xFF, 0xFF]))
      = ((1, None), dev (holding [0xFF, 0xFF]))"
    by (simp add: holding_def loopback_File_def)
  have h2: "file_Read (rc (chan (holding [0xFF, 0xFF]))) 2 (dev (holding [0xFF, 0xFF]))
      = (([0xFF, 0xFF], None), dev (holding [0xFF, 0xFF]))"
    by (simp add: holding_def loopback_File_def)
  show ?thesis using h1 h2 ReadRegS16BE_twos_complement [OF h1 h2] by simp
qed

section \<open>A failed register-select write\<close>

text \<open>
  Claim C6. When the write of \<open>[reg]\<close> fails with an error, every register read
  returns that error together with a zero value (a nil slice and the count \<open>0\<close> for
  \<open>ReadRegBytes\<close>), and the only call it has made is that write: no sleep, no read.
\<close>

theorem failed_select_write_stops_read:
  assumes "file_Write (rc (chan w)) [reg] (dev w) = ((n, Some e), d1)"
  shows "ReadRegBytes reg k w =
      (Returns (None, 0, Some e), w\<lparr>dev := d1, calls := calls w @ [CallWrite [reg]]\<rparr>)
    \<and> ReadRegBytesWithDelay reg k delay w =
      (Returns (None, 0, Some e), w\<lparr>dev := d1, calls := calls w @ [CallWrite [reg]]\<rparr>)
    \<and> ReadRegU8 reg w =
      ((0, Some e), w\<lparr>dev := d1, calls := calls w @ [CallWrite [reg]]\<rparr>)
    \<and> ReadRegU8WithDelay reg delay w =
      ((0, Some e), w\<lparr>dev := d1, calls := calls w @ [CallWrite [reg]]\<rparr>)
    \<and> ReadRegU16BE reg w =
      ((0, Some e), w\<lparr>dev := d1, calls := calls w @ [CallWrite [reg]]\<rparr>)
    \<and> ReadRegU16BEWithDelay reg delay w =
      ((0, Some e), w\<lparr>dev := d1, calls := calls w @ [CallWrite [reg]]\<rparr>)
    \<and> ReadRegU16LE reg w =
      ((0, Some e), w\<lparr>dev := d1, calls := calls w @ [CallWrite [reg]]\<rparr>)
    \<and> ReadRegU16LEWithDelay reg delay w =
      ((0, Some e), w\<lparr>dev := d1, calls := calls w @ [CallWrite [reg]]\<rparr>)
    \<and> ReadRegS16BE reg w =
      ((0, Some e), w\<lparr>dev := d1, calls := calls w @ [CallWrite [reg]]\<rparr>)
    \<and> ReadRegS16BEWithDelay reg delay w =
      ((0, Some e), w\<lparr>dev := d1, calls := calls w @ [CallWrite [reg]]\<rparr>)
    \<and> ReadRegS16LE reg w =
      ((0, Some e), w\<lparr>dev := d1, calls := calls w @ [CallWrite [reg]]\<rparr>)
    \<and> ReadRegS16LEWithDelay reg delay w =
      ((0, Some e), w\<lparr>dev := d1, calls := calls w @ [CallWrite [reg]]\<rparr>)"
  by (simp only: default_delay select_fails [OF assms] simp_thms)

theorem failed_select_write_stops_read_witness:
  "file_Write (rc (chan (snd (Close (holding []))))) [0x10] (dev (snd (Close (holding []))))
      = ((0, Some ''file already closed''), dev (snd (Close (holding []))))
   \<and> fst (ReadRegU8 0x10 (snd (Close (holding [])))) = (0, Some ''file already closed'')
   \<and> calls (snd (ReadRegU8 0x10 (snd (Close (holding []))))) = [CallClose, CallWrite [0x10]]
   \<and> fst (ReadRegBytes 0x10 4 (snd (Close (holding []))))
      = Returns (None, 0, Some ''file already closed'')
   \<and> fst (ReadRegS16LE 0x10 (snd (Close (holding [])))) = (0, Some ''file already closed'')"
proof -
  have h: "file_Write (rc (chan (snd (Close (holding []))))) [0x10] (dev (snd (Close (holding []))))
      = ((0, Some ''file already closed''), dev (snd (Close (holding []))))"
    by (simp add: Close_def holding_def loopback_File_def)
  have c: "calls (snd (Close (holding []))) = [CallClose]"
    by (simp add: Close_def holding_def loopback_File_def)
  show ?thesis
    using h c failed_select_write_stops_read [OF h, of 4 0] by simp
qed

section \<open>Register writes\<close>

text \<open>
  Claim C7. Each of \<open>WriteRegU8\<close>, \<open>WriteRegU16BE\<close> and \<open>WriteRegS16BE\<close> is
  exactly one write on the file, of the frame that starts with the register address
  and goes on with the data: \<open>[reg, value]\<close> for a byte and
  \<open>[reg, high byte, low byte]\<close> for a word (the value, as 16 bits, divided by 256
  and its remainder). The operation returns the error of that write, the state behind
  the file is the one that write leaves, and the calls made so far grow by that write
  alone: there is no write of the register address by itself and no sleep.
\<close>

theorem register_write_single_frame:
  "WriteRegU8 reg val w =
     (snd (fst (file_Write (rc (chan w)) [reg, val] (dev w))),
      w\<lparr>dev := snd (file_Write (rc (chan w)) [reg, val] (dev w)),
        calls := calls w @ [CallWrite [reg, val]]\<rparr>)
   \<and> WriteRegU16BE reg v w =
     (snd (fst (file_Write (rc (chan w))
         [reg, word_of_nat (unat v div 256), word_of_nat (unat v mod 256)] (dev w))),
      w\<lparr>dev := snd (file_Write (rc (chan w))
         [reg, word_of_nat (unat v div 256), word_of_nat (unat v mod 256)] (dev w)),
        calls := calls w @
          [CallWrite [reg, word_of_nat (unat v div 256), word_of_nat (unat v mod 256)]]\<rparr>)
   \<and> WriteRegS16BE reg v w =
     (snd (fst (file_Write (rc (chan w))
         [reg, word_of_nat (unat v div 256), word_of_nat (unat v mod 256)] (dev w))),
      w\<lparr>dev := snd (file_Write (rc (chan w))
         [reg, word_of_nat (unat v div 256), word_of_nat (unat v mod 256)] (dev w)),
        calls := calls w @
          [CallWrite [reg, word_of_nat (unat v div 256), word_of_nat (unat v mod 256)]]\<rparr>)"
proof -
  have hi: "(ucast (drop_bit 8 (v AND 0xFF00)) :: byte) = word_of_nat (unat v div 256)"
    by (rule of_nat_unat_byte) (rule unat_high_byte)
  have lo: "(ucast (v AND 0xFF) :: byte) = word_of_nat (unat v mod 256)"
    by (rule of_nat_unat_byte) (rule unat_low_byte)
  show ?thesis
    by (simp only: WriteRegU8_def WriteRegU16BE_def WriteRegS16BE_def Let_def hi lo
        register_write_full simp_thms)
qed

section \<open>Operations after Close\<close>

text \<open>
  Claim C8 says that after a successful \<open>Close\<close> an operation fails with the error
  \<open>ChannelClosed\<close> and performs no transport call. On the loopback device \<open>Close\<close>
  returns nil, and the \<open>WriteRegU8\<close> that follows does call \<open>Write\<close> on the file
  with its frame; the error it returns is the one the closed file gave to that call.
\<close>

theorem WriteRegU8_after_Close_calls_Write:
  "fst (Close (holding [])) = None
   \<and> fst (WriteRegU8 0x10 0x01 (snd (Close (holding [])))) = Some ''file already closed''
   \<and> calls (snd (Close (holding []))) = [CallClose]
   \<and> calls (snd (WriteRegU8 0x10 0x01 (snd (Close (holding []))))) = [CallClose, CallWrite [0x10, 0x01]]"
  by (simp add: Close_def WriteRegU8_def WriteBytes_def write_rc_def holding_def loopback_File_def)

text \<open>
  Claim C8, as the code has it. Let \<open>Close\<close> return nil on \<open>w\<close> and leave \<open>wc\<close>, and
  let \<open>w'\<close> be the channel after any further operations \<open>xs\<close>. \<open>Close\<close> was one
  \<open>Close\<close> call on the file and nothing else, and the struct is still the one of
  \<open>w\<close>: the channel keeps no state of its own that tells open from closed. Every
  operation on \<open>w'\<close> still calls the file: \<open>WriteBytes\<close>, \<open>ReadBytes\<close> and the
  register writes are exactly one call each, with the result and the state that call
  gives, and every register read begins with the write of \<open>[reg]\<close>. If moreover the
  file stays closed (in the states described by \<open>P\<close>, which holds after the \<open>Close\<close>,
  it rejects every write with \<open>ew\<close> and every read with \<open>er\<close>, and every call
  leads to such a state again), then on \<open>w'\<close> the writes return \<open>ew\<close>, \<open>ReadBytes\<close>
  returns \<open>er\<close>, and every register read, with or without delay, returns a zero
  value with \<open>ew\<close> after the one rejected write of \<open>[reg]\<close> and nothing more.
\<close>

theorem operations_after_Close:
  assumes cl: "Close w = (None, wc)"
  shows
   "(let f = rc (chan w);
         w' = perform_all xs wc;
         sent = (\<lambda>frame. w'\<lparr>dev := snd (file_Write f frame (dev w')),
                              calls := calls w' @ [CallWrite frame]\<rparr>);
         got = file_Read f (length buf) (dev w');
         n = min (length (fst (fst got))) (length buf)
     in wc = w\<lparr>dev := snd (file_Close f (dev w)), calls := calls w @ [CallClose]\<rparr>
      \<and> chan w' = chan w
      \<and> WriteBytes buf w' = (fst (file_Write f buf (dev w')), sent buf)
      \<and> ReadBytes buf w' =
          ((take n (fst (fst got)) @ drop n buf, int n, snd (fst got)),
           w'\<lparr>dev := snd got, calls := calls w' @ [CallRead (length buf)]\<rparr>)
      \<and> WriteRegU8 reg val w' = (snd (fst (file_Write f [reg, val] (dev w'))), sent [reg, val])
      \<and> (\<exists>frame. WriteRegU16BE reg v w' = (snd (fst (file_Write f frame (dev w'))), sent frame))
      \<and> (\<exists>frame. WriteRegU16LE reg v w' = (snd (fst (file_Write f frame (dev w'))), sent frame))
      \<and> (\<exists>frame. WriteRegS16BE reg v w' = (snd (fst (file_Write f frame (dev w'))), sent frame))
      \<and> (\<exists>frame. WriteRegS16LE reg v w' = (snd (fst (file_Write f frame (dev w'))), sent frame))
      \<and> (\<exists>rest. calls (snd (ReadRegBytes reg k w')) = calls w' @ CallWrite [reg] # rest)
      \<and> (\<exists>rest. calls (snd (ReadRegBytesWithDelay reg k delay w'))
            = calls w' @ CallWrite [reg] # rest)
      \<and> (\<exists>rest. calls (snd (ReadRegU8 reg w')) = calls w' @ CallWrite [reg] # rest)
      \<and> (\<exists>rest. calls (snd (ReadRegU8WithDelay reg delay w')) = calls w' @ CallWrite [reg] # rest)
      \<and> (\<exists>rest. calls (snd (ReadRegU16BE reg w')) = calls w' @ CallWrite [reg] # rest)
      \<and> (\<exists>rest. calls (snd (ReadRegU16BEWithDelay reg delay w'))
            = calls w' @ CallWrite [reg] # rest)
      \<and> (\<exists>rest. calls (snd (ReadRegU16LE reg w')) = calls w' @ CallWrite [reg] # rest)
      \<and> (\<exists>rest. calls (snd (ReadRegU16LEWithDelay reg delay w'))
            = calls w' @ CallWrite [reg] # rest)
      \<and> (\<exists>rest. calls (snd (ReadRegS16BE reg w')) = calls w' @ CallWrite [reg] # rest)
      \<and> (\<exists>rest. calls (snd (ReadRegS16BEWithDelay reg delay w'))
            = calls w' @ CallWrite [reg] # rest)
      \<and> (\<exists>rest. calls (snd (ReadRegS16LE reg w')) = calls w' @ CallWrite [reg] # rest)
      \<and> (\<exists>rest. calls (snd (ReadRegS16LEWithDelay reg delay w'))
            = calls w' @ CallWrite [reg] # rest)
      \<and> (P (dev wc)
           \<and> (\<forall>d. P d \<longrightarrow>
                 (\<forall>b. snd (fst (file_Write f b d)) = Some ew \<and> P (snd (file_Write f b d)))
               \<and> (\<forall>n. snd (fst (file_Read f n d)) = Some er \<and> P (snd (file_Read f n d)))
               \<and> P (snd (file_Close f d)))
         \<longrightarrow> snd (fst (WriteBytes buf w')) = Some ew
           \<and> snd (snd (fst (ReadBytes buf w'))) = Some er
           \<and> fst (WriteRegU8 reg val w') = Some ew
           \<and> fst (WriteRegU16BE reg v w') = Some ew
           \<and> fst (WriteRegU16LE reg v w') = Some ew
           \<and> fst (WriteRegS16BE reg v w') = Some ew
           \<and> fst (WriteRegS16LE reg v w') = Some ew
           \<and> ReadRegBytes reg k w' = (Returns (None, 0, Some ew), sent [reg])
           \<and> ReadRegBytesWithDelay reg k delay w' = (Returns (None, 0, Some ew), sent [reg])
           \<and> ReadRegU8 reg w' = ((0, Some ew), sent [reg])
           \<and> ReadRegU8WithDelay reg delay w' = ((0, Some ew), sent [reg])
           \<and> ReadRegU16BE reg w' = ((0, Some ew), sent [reg])
           \<and> ReadRegU16BEWithDelay reg delay w' = ((0, Some ew), sent [reg])
           \<and> ReadRegU16LE reg w' = ((0, Some ew), sent [reg])
           \<and> ReadRegU16LEWithDelay reg delay w' = ((0, Some ew), sent [reg])
           \<and> ReadRegS16BE reg w' = ((0, Some ew), sent [reg])
           \<and> ReadRegS16BEWithDelay reg delay w' = ((0, Some ew), sent [reg])
           \<and> ReadRegS16LE reg w' = ((0, Some ew), sent [reg])
           \<and> ReadRegS16LEWithDelay reg delay w' = ((0, Some ew), sent [reg])))"
proof -
  define f where "f = rc (chan w)"
  define w' where "w' = perform_all xs wc"
  have wc: "wc = w\<lparr>dev := snd (file_Close f (dev w)), calls := calls w @ [CallClose]\<rparr>"
    using cl by (simp add: Close_full f_def)
  have ch: "chan w' = chan w"
    by (simp add: w'_def chan_perform_all wc)
  have f': "rc (chan w') = f"
    by (simp add: ch f_def)
  have wb: "WriteBytes buf w' =
      (fst (file_Write f buf (dev w')),
       w'\<lparr>dev := snd (file_Write f buf (dev w')), calls := calls w' @ [CallWrite buf]\<rparr>)"
    by (simp only: WriteBytes_full f')
  have rb: "ReadBytes buf w' =
      ((take (min (length (fst (fst (file_Read f (length buf) (dev w'))))) (length buf))
          (fst (fst (file_Read f (length buf) (dev w'))))
        @ drop (min (length (fst (fst (file_Read f (length buf) (dev w'))))) (length buf)) buf,
        int (min (length (fst (fst (file_Read f (length buf) (dev w'))))) (length buf)),
        snd (fst (file_Read f (length buf) (dev w')))),
       w'\<lparr>dev := snd (file_Read f (length buf) (dev w')),
          calls := calls w' @ [CallRead (length buf)]\<rparr>)"
    using ReadBytes_full [of buf w'] by (simp only: f')
  have u8: "WriteRegU8 reg val w' =
      (snd (fst (file_Write f [reg, val] (dev w'))),
       w'\<lparr>dev := snd (file_Write f [reg, val] (dev w')),
          calls := calls w' @ [CallWrite [reg, val]]\<rparr>)"
    by (simp only: WriteRegU8_full f')
  have be: "\<exists>frame. WriteRegU16BE reg v w' =
      (snd (fst (file_Write f frame (dev w'))),
       w'\<lparr>dev := snd (file_Write f frame (dev w')), calls := calls w' @ [CallWrite frame]\<rparr>)"
    using WriteRegU16BE_some_frame [of reg v w'] by (simp only: f')
  have le: "\<exists>frame. WriteRegU16LE reg v w' =
      (snd (fst (file_Write f frame (dev w'))),
       w'\<lparr>dev := snd (file_Write f frame (dev w')), calls := calls w' @ [CallWrite frame]\<rparr>)"
    using WriteRegU16LE_some_frame [of reg v w'] by (simp only: f')
  have sbe: "\<exists>frame. WriteRegS16BE reg v w' =
      (snd (fst (file_Write f frame (dev w'))),
       w'\<lparr>dev := snd (file_Write f frame (dev w')), calls := calls w' @ [CallWrite frame]\<rparr>)"
    using WriteRegS16BE_some_frame [of reg v w'] by (simp only: f')
  have sle: "\<exists>frame. WriteRegS16LE reg v w' =
      (snd (fst (file_Write f frame (dev w'))),
       w'\<lparr>dev := snd (file_Write f frame (dev w')), calls := calls w' @ [CallWrite frame]\<rparr>)"
    using WriteRegS16LE_some_frame [of reg v w'] by (simp only: f')
  have first: "\<exists>rest. calls (snd (ReadRegBytes reg k w')) = calls w' @ CallWrite [reg] # rest"
    "\<exists>rest. calls (snd (ReadRegBytesWithDelay reg k delay w')) = calls w' @ CallWrite [reg] # rest"
    "\<exists>rest. calls (snd (ReadRegU8 reg w')) = calls w' @ CallWrite [reg] # rest"
    "\<exists>rest. calls (snd (ReadRegU8WithDelay reg delay w')) = calls w' @ CallWrite [reg] # rest"
    "\<exists>rest. calls (snd (ReadRegU16BE reg w')) = calls w' @ CallWrite [reg] # rest"
    "\<exists>rest. calls (snd (ReadRegU16BEWithDelay reg delay w')) = calls w' @ CallWrite [reg] # rest"
    "\<exists>rest. calls (snd (ReadRegU16LE reg w')) = calls w' @ CallWrite [reg] # rest"
    "\<exists>rest. calls (snd (ReadRegU16LEWithDelay reg delay w')) = calls w' @ CallWrite [reg] # rest"
    "\<exists>rest. calls (snd (ReadRegS16BE reg w')) = calls w' @ CallWrite [reg] # rest"
    "\<exists>rest. calls (snd (ReadRegS16BEWithDelay reg delay w')) = calls w' @ CallWrite [reg] # rest"
    "\<exists>rest. calls (snd (ReadRegS16LE reg w')) = calls w' @ CallWrite [reg] # rest"
    "\<exists>rest. calls (snd (ReadRegS16LEWithDelay reg delay w')) = calls w' @ CallWrite [reg] # rest"
    by (simp_all only: default_delay first_call)
  have closed: "P (dev wc)
           \<and> (\<forall>d. P d \<longrightarrow>
                 (\<forall>b. snd (fst (file_Write f b d)) = Some ew \<and> P (snd (file_Write f b d)))
               \<and> (\<forall>n. snd (fst (file_Read f n d)) = Some er \<and> P (snd (file_Read f n d)))
               \<and> P (snd (file_Close f d)))
         \<longrightarrow> snd (fst (WriteBytes buf w')) = Some ew
           \<and> snd (snd (fst (ReadBytes buf w'))) = Some er
           \<and> fst (WriteRegU8 reg val w') = Some ew
           \<and> fst (WriteRegU16BE reg v w') = Some ew
           \<and> fst (WriteRegU16LE reg v w') = Some ew
           \<and> fst (WriteRegS16BE reg v w') = Some ew
           \<and> fst (WriteRegS16LE reg v w') = Some ew
           \<and> ReadRegBytes reg k w' = (Returns (None, 0, Some ew),
                w'\<lparr>dev := snd (file_Write f [reg] (dev w')), calls := calls w' @ [CallWrite [reg]]\<rparr>)
           \<and> ReadRegBytesWithDelay reg k delay w' = (Returns (None, 0, Some ew),
                w'\<lparr>dev := snd (file_Write f [reg] (dev w')), calls := calls w' @ [CallWrite [reg]]\<rparr>)
           \<and> ReadRegU8 reg w' = ((0, Some ew),
                w'\<lparr>dev := snd (file_Write f [reg] (dev w')), calls := calls w' @ [CallWrite [reg]]\<rparr>)
           \<and> ReadRegU8WithDelay reg delay w' = ((0, Some ew),
                w'\<lparr>dev := snd (file_Write f [reg] (dev w')), calls := calls w' @ [CallWrite [reg]]\<rparr>)
           \<and> ReadRegU16BE reg w' = ((0, Some ew),
                w'\<lparr>dev := snd (file_Write f [reg] (dev w')), calls := calls w' @ [CallWrite [reg]]\<rparr>)
           \<and> ReadRegU16BEWithDelay reg delay w' = ((0, Some ew),
                w'\<lparr>dev := snd (file_Write f [reg] (dev w')), calls := calls w' @ [CallWrite [reg]]\<rparr>)
           \<and> ReadRegU16LE reg w' = ((0, Some ew),
                w'\<lparr>dev := snd (file_Write f [reg] (dev w')), calls := calls w' @ [CallWrite [reg]]\<rparr>)
           \<and> ReadRegU16LEWithDelay reg delay w' = ((0, Some ew),
                w'\<lparr>dev := snd (file_Write f [reg] (dev w')), calls := calls w' @ [CallWrite [reg]]\<rparr>)
           \<and> ReadRegS16BE reg w' = ((0, Some ew),
                w'\<lparr>dev := snd (file_Write f [reg] (dev w')), calls := calls w' @ [CallWrite [reg]]\<rparr>)
           \<and> ReadRegS16BEWithDelay reg delay w' = ((0, Some ew),
                w'\<lparr>dev := snd (file_Write f [reg] (dev w')), calls := calls w' @ [CallWrite [reg]]\<rparr>)
           \<and> ReadRegS16LE reg w' = ((0, Some ew),
                w'\<lparr>dev := snd (file_Write f [reg] (dev w')), calls := calls w' @ [CallWrite [reg]]\<rparr>)
           \<and> ReadRegS16LEWithDelay reg delay w' = ((0, Some ew),
                w'\<lparr>dev := snd (file_Write f [reg] (dev w')), calls := calls w' @ [CallWrite [reg]]\<rparr>)"
    (is "?A \<longrightarrow> ?C")
  proof (intro impI)
    assume a: ?A
    from a have P0: "P (dev wc)" ..
    from a have inv: "\<forall>d. P d \<longrightarrow>
          (\<forall>b. snd (fst (file_Write f b d)) = Some ew \<and> P (snd (file_Write f b d)))
        \<and> (\<forall>n. snd (fst (file_Read f n d)) = Some er \<and> P (snd (file_Read f n d)))
        \<and> P (snd (file_Close f d))" ..
    have "rc (chan wc) = f"
      by (simp add: wc f_def)
    then have P': "P (dev w')"
      unfolding w'_def using perform_all_stays_closed [OF inv] P0 by blast
    have W: "snd (fst (file_Write (rc (chan w')) b (dev w'))) = Some ew" for b
      using inv P' f' by blast
    have R: "snd (fst (file_Read (rc (chan w')) n (dev w'))) = Some er" for n
      using inv P' f' by blast
    have word: "fst r = Some ew"
      if "\<exists>frame. r = (snd (fst (file_Write (rc (chan w')) frame (dev w'))),
        w'\<lparr>dev := snd (file_Write (rc (chan w')) frame (dev w')),
          calls := calls w' @ [CallWrite frame]\<rparr>)" for r
      using that W by auto
    show ?C
      using W [of buf] R [of "length buf"] W [of "[reg, val]"]
        word [OF WriteRegU16BE_some_frame] word [OF WriteRegU16LE_some_frame]
        word [OF WriteRegS16BE_some_frame] word [OF WriteRegS16LE_some_frame]
      by (simp add: WriteBytes_full ReadBytes_full WriteRegU8_full rejected_reads [OF W] f')
  qed
  show ?thesis
    unfolding Let_def f_def [symmetric] w'_def [symmetric]
    by (intro conjI wc ch wb rb u8 be le sbe sle first closed)
qed

theorem operations_after_Close_witness:
  "Close (holding []) = (None, snd (Close (holding [])))
   \<and> closed (dev (snd (Close (holding []))))
   \<and> (\<forall>p b. snd (fst (file_Write (rc (chan (holding []))) b \<lparr>payload = p, closed = True\<rparr>))
           = Some ''file already closed''
         \<and> closed (snd (file_Write (rc (chan (holding []))) b \<lparr>payload = p, closed = True\<rparr>)))
   \<and> (\<forall>p n. snd (fst (file_Read (rc (chan (holding []))) n \<lparr>payload = p, closed = True\<rparr>))
           = Some ''file already closed''
         \<and> closed (snd (file_Read (rc (chan (holding []))) n \<lparr>payload = p, closed = True\<rparr>)))
   \<and> (\<forall>p. closed (snd (file_Close (rc (chan (holding []))) \<lparr>payload = p, closed = True\<rparr>)))
   \<and> calls (perform_all [DoWriteRegU8 0x10 0x01, DoReadRegU8 0x10] (snd (Close (holding []))))
       = [CallClose, CallWrite [0x10, 0x01], CallWrite [0x10]]
   \<and> fst (WriteRegU8 0x10 0x01
         (perform_all [DoWriteRegU8 0x10 0x01, DoReadRegU8 0x10] (snd (Close (holding [])))))
       = Some ''file already closed''
   \<and> fst (ReadRegU16BE 0x10
         (perform_all [DoWriteRegU8 0x10 0x01, DoReadRegU8 0x10] (snd (Close (holding [])))))
       = (0, Some ''file already closed'')
   \<and> calls (snd (ReadRegU16BE 0x10
         (perform_all [DoWriteRegU8 0x10 0x01, DoReadRegU8 0x10] (snd (Close (holding []))))))
       = [CallClose, CallWrite [0x10, 0x01], CallWrite [0x10], CallWrite [0x10]]"
proof -
  have h1: "Close (holding []) = (None, snd (Close (holding [])))"
    by (simp add: Close_def holding_def loopback_File_def)
  have h2: "closed (dev (snd (Close (holding []))))"
    by (simp add: Close_def holding_def loopback_File_def)
  have h3: "\<forall>d. closed d \<longrightarrow>
         (\<forall>b. snd (fst (file_Write (rc (chan (holding []))) b d)) = Some ''file already closed''
              \<and> closed (snd (file_Write (rc (chan (holding []))) b d)))
       \<and> (\<forall>n. snd (fst (file_Read (rc (chan (holding []))) n d)) = Some ''file already closed''
              \<and> closed (snd (file_Read (rc (chan (holding []))) n d)))
       \<and> closed (snd (file_Close (rc (chan (holding []))) d))"
    by (simp add: holding_def loopback_File_def)
  have hc: "calls (perform_all [DoWriteRegU8 0x10 0x01, DoReadRegU8 0x10] (snd (Close (holding []))))
       = [CallClose, CallWrite [0x10, 0x01], CallWrite [0x10]]"
    by (simp add: Close_def WriteRegU8_def ReadRegU8_def ReadRegU8WithDelay_def WriteBytes_def
        write_rc_def holding_def loopback_File_def)
  note t = operations_after_Close [OF h1, where xs = "[DoWriteRegU8 0x10 0x01, DoReadRegU8 0x10]"
      and P = closed and ew = "''file already closed''" and er = "''file already closed''"
      and reg = "0x10" and val = "0x01", unfolded Let_def]
  from t h2 h3 have r: "fst (WriteRegU8 0x10 0x01
         (perform_all [DoWriteRegU8 0x10 0x01, DoReadRegU8 0x10] (snd (Close (holding [])))))
       = Some ''file already closed''
     \<and> ReadRegU16BE 0x10
         (perform_all [DoWriteRegU8 0x10 0x01, DoReadRegU8 0x10] (snd (Close (holding []))))
       = ((0, Some ''file already closed''),
          (perform_all [DoWriteRegU8 0x10 0x01, DoReadRegU8 0x10] (snd (Close (holding []))))
          \<lparr>dev := snd (file_Write (rc (chan (holding []))) [0x10]
              (dev (perform_all [DoWriteRegU8 0x10 0x01, DoReadRegU8 0x10]
                 (snd (Close (holding [])))))),
           calls := calls (perform_all [DoWriteRegU8 0x10 0x01, DoReadRegU8 0x10]
              (snd (Close (holding [])))) @ [CallWrite [0x10]]\<rparr>)"
    by blast
  have h4: "(\<forall>p b. snd (fst (file_Write (rc (chan (holding []))) b \<lparr>payload = p, closed = True\<rparr>))
           = Some ''file already closed''
         \<and> closed (snd (file_Write (rc (chan (holding []))) b \<lparr>payload = p, closed = True\<rparr>)))
   \<and> (\<forall>p n. snd (fst (file_Read (rc (chan (holding []))) n \<lparr>payload = p, closed = True\<rparr>))
           = Some ''file already closed''
         \<and> closed (snd (file_Read (rc (chan (holding []))) n \<lparr>payload = p, closed = True\<rparr>)))
   \<and> (\<forall>p. closed (snd (file_Close (rc (chan (holding []))) \<lparr>payload = p, closed = True\<rparr>)))"
    by (simp add: holding_def loopback_File_def)
  show ?thesis
    using h1 h2 h4 hc r by (simp only: fst_conv snd_conv simp_thms) simp
qed

section \<open>Address and bus\<close>

text \<open>
  Claim C9. Let \<open>NewI2C\<close> with address \<open>a\<close> and bus \<open>b\<close> return a channel. After any
  sequence of operations on it (raw or register reads and writes, \<open>Close\<close>, the
  accessors themselves) \<open>GetAddr\<close> returns \<open>a\<close> and \<open>GetBus\<close> returns \<open>b\<close>, both
  leave the state exactly as they found it, and the struct still holds \<open>a\<close>, \<open>b\<close>
  and the file opened at construction.
\<close>

theorem address_and_bus_kept:
  assumes "NewI2C h a b = Inr w0"
  shows "GetAddr (perform_all xs w0) = (a, perform_all xs w0)
    \<and> GetBus (perform_all xs w0) = (b, perform_all xs w0)
    \<and> chan (perform_all xs w0) = \<lparr>addr = a, bus = b, rc = os_File h\<rparr>"
proof -
  from assms have "chan w0 = \<lparr>addr = a, bus = b, rc = os_File h\<rparr>"
    by (auto simp: NewI2C_def split: sum.splits prod.splits option.splits)
  then show ?thesis
    by (simp add: GetAddr_def GetBus_def chan_perform_all)
qed

theorem address_and_bus_kept_witness:
  "NewI2C loopback_host 0x40 1 = Inr (holding [])
   \<and> fst (GetAddr (perform_all
        [DoWriteRegU16LE 0x10 0x1234, DoReadRegU8 0x10, DoClose, DoWriteRegU8 0x10 1]
        (holding []))) = 0x40
   \<and> fst (GetBus (perform_all
        [DoWriteRegU16LE 0x10 0x1234, DoReadRegU8 0x10, DoClose, DoWriteRegU8 0x10 1]
        (holding []))) = 1"
proof -
  have h: "NewI2C loopback_host 0x40 1 = Inr (holding [])"
    by (simp add: NewI2C_def loopback_host_def holding_def sprintf_d_def decimal.simps ioctl_def)
  show ?thesis
    using h address_and_bus_kept [OF h, of "[DoWriteRegU16LE 0x10 0x1234, DoReadRegU8 0x10, DoClose, DoWriteRegU8 0x10 1]"]
    by simp
qed

section \<open>Short reads\<close>

text \<open>
  Claim C10. The fixed-width register reads do not look at the count that \<open>Read\<close>
  returns. When the register-select write succeeds and the read returns a nil error,
  having delivered any number of bytes (fewer than asked for, or none), the operation
  returns a nil error, and its value is the one computed from the delivered bytes
  followed by zeros: what a full read of those bytes and zeros would have given.
\<close>

theorem short_read_zero_filled:
  assumes "file_Write (rc (chan w)) [reg] (dev w) = ((n, None), d1)"
    and "file_Read (rc (chan w)) 1 d1 = ((data1, None), d2)"
    and "file_Read (rc (chan w)) 2 d1 = ((data2, None), d3)"
  shows
   "(let p = take 1 (data1 @ [0]);
         q = take 2 (data2 @ [0, 0]);
         x = push_bit 8 (ucast (q ! 0)) + ucast (q ! 1)
     in fst (ReadRegU8WithDelay reg delay w) = (p ! 0, None)
      \<and> fst (ReadRegU8 reg w) = (p ! 0, None)
      \<and> fst (ReadRegU16BEWithDelay reg delay w) = (x, None)
      \<and> fst (ReadRegU16BE reg w) = (x, None)
      \<and> fst (ReadRegU16LEWithDelay reg delay w) = (push_bit 8 (x AND 0xFF) + drop_bit 8 x, None)
      \<and> fst (ReadRegU16LE reg w) = (push_bit 8 (x AND 0xFF) + drop_bit 8 x, None)
      \<and> fst (ReadRegS16BEWithDelay reg delay w) = (x, None)
      \<and> fst (ReadRegS16BE reg w) = (x, None)
      \<and> fst (ReadRegS16LEWithDelay reg delay w)
          = (push_bit 8 (x AND 0xFF) + signed_drop_bit 8 x, None)
      \<and> fst (ReadRegS16LE reg w) = (push_bit 8 (x AND 0xFF) + signed_drop_bit 8 x, None))"
  unfolding Let_def
  by (simp only: default_delay
      ReadRegU8WithDelay_delivered [OF assms(1) assms(2)]
      ReadRegU16BEWithDelay_delivered [OF assms(1) assms(3)]
      ReadRegU16LEWithDelay_delivered [OF assms(1) assms(3)]
      ReadRegS16BEWithDelay_delivered [OF assms(1) assms(3)]
      ReadRegS16LEWithDelay_delivered [OF assms(1) assms(3)] fst_conv simp_thms)

theorem short_read_zero_filled_witness:
  "file_Write (rc (chan (holding [0x07]))) [0x10] (dev (holding [0x07]))
      = ((1, None), dev (holding [0x07]))
   \<and> file_Read (rc (chan (holding [0x07]))) 1 (dev (holding [0x07]))
      = (([0x07], None), dev (holding [0x07]))
   \<and> file_Read (rc (chan (holding [0x07]))) 2 (dev (holding [0x07]))
      = (([0x07], None), dev (holding [0x07]))
   \<and> fst (ReadRegU8 0x10 (holding [0x07])) = (0x07, None)
   \<and> fst (ReadRegU16BE 0x10 (holding [0x07])) = (0x0700, None)
   \<and> fst (ReadRegU16LE 0x10 (holding [0x07])) = (0x0007, None)
   \<and> fst (ReadRegS16BE 0x10 (holding [0x07])) = (0x0700, None)
   \<and> fst (ReadRegS16LE 0x10 (holding [0x07])) = (0x0007, None)"
proof -
  have h1: "file_Write (rc (chan (holding [0x07]))) [0x10] (dev (holding [0x07]))
      = ((1, None), dev (holding [0x07]))"
    by (simp add: holding_def loopback_File_def)
  have h2: "file_Read (rc (chan (holding [0x07]))) 1 (dev (holding [0x07]))
      = (([0x07], None), dev (holding [0x07]))"
    by (simp add: holding_def loopback_File_def)
  have h3: "file_Read (rc (chan (holding [0x07]))) 2 (dev (holding [0x07]))
      = (([0x07], None), dev (holding [0x07]))"
    by (simp add: holding_def loopback_File_def)
  show ?thesis using h1 h2 h3 short_read_zero_filled [OF h1 h2 h3, of 0] by (simp add: Let_def)
qed

end
